theory Spec2Isabelle
  imports Complex_Main
begin

section \<open>Data model (types.ts and the fields of class McastClient)\<close>

text \<open>
  The members of \<open>ConnectionState\<close> that client.ts refers to. The declaration in
  types.ts lists five of them: see \<open>ConnectionState_declared\<close> below.
\<close>

datatype ConnectionState =
  DISCONNECTED | CONNECTING | CONNECTED | RECONNECTING | DISCONNECTING | ERROR

text \<open>The string value of each member, and the member list of the enum in types.ts.\<close>

fun memberValue :: "ConnectionState \<Rightarrow> string" where
  "memberValue DISCONNECTED = ''disconnected''"
| "memberValue CONNECTING = ''connecting''"
| "memberValue CONNECTED = ''connected''"
| "memberValue RECONNECTING = ''reconnecting''"
| "memberValue DISCONNECTING = ''disconnecting''"
| "memberValue ERROR = ''error''"

definition ConnectionState_declared :: "string list" where
  "ConnectionState_declared =
     [''disconnected'', ''connecting'', ''connected'', ''reconnecting'', ''error'']"

text \<open>The second argument of a state change listener: \<open>"publisher" | "subscriber"\<close>.\<close>

datatype connectionType = publisher | subscriber

definition TOPIC_ALL :: string where
  "TOPIC_ALL = ''_ALL_''"

datatype SerializedMessage = SerializedMessage (topic: string) (payload: string)

text \<open>
  The errors the client creates or passes on: \<open>new Error("Client is disconnecting")\<close>,
  \<open>new Error(`WebSocket error: ...`)\<close> with the text after the colon, and whatever a
  callee threw (the WebSocket constructor, \<open>close\<close>, \<open>JSON.stringify\<close>).
\<close>

datatype error = ClientIsDisconnecting | WebSocketError string | Thrown string

text \<open>
  A promise is settled at most once: \<open>resolve\<close> and \<open>reject\<close> on a settled promise do
  nothing. Promises are kept in a table and named by their index.
\<close>

datatype settled = Pending | Fulfilled | Rejected error

text \<open>
  A transport handle as the client sees it. \<open>readyState\<close> is the WebSocket field that
  \<open>isSocketConnected\<close> reads (0 connecting, 1 open, 2 closing, 3 closed). \<open>attempt\<close> is the
  connect promise whose \<open>resolve\<close> and \<open>reject\<close> the handlers of this socket close over;
  \<open>handlers\<close> says whose handlers they are. \<open>closeListeners\<close> are the promises that the
  one-shot close listeners added by \<open>disconnect\<close> resolve.
\<close>

record socket =
  handlers :: connectionType
  readyState :: nat
  attempt :: nat
  closeListeners :: "nat list"

text \<open>
  \<open>maxReconnectAttempts\<close> is a JavaScript number: a finite value (every double is a
  rational), \<open>NaN\<close> or an infinity; the constructor takes what the options give, and
  env.ts gives \<open>NaN\<close> when \<open>parseInt\<close> fails. The retry counters start at 0 and are
  only ever incremented, so they are natural numbers. \<open>reached n m\<close> is the test
  \<open>n >= m\<close> of the source; \<open>withinCeiling n m\<close> is \<open>n <= m\<close>. Both are false at \<open>NaN\<close>.
\<close>

datatype number = Finite rat | NaN | PosInfinity | NegInfinity

fun reached :: "nat \<Rightarrow> number \<Rightarrow> bool" where
  "reached n (Finite q) = (of_nat n \<ge> q)"
| "reached n NaN = False"
| "reached n PosInfinity = False"
| "reached n NegInfinity = True"


text \<open>Pending \<open>setTimeout\<close> callbacks: the reconnect delay and the forced close of disconnect.\<close>

datatype timer =
  ReconnectPublisher | ReconnectSubscriber | ForceClosePublisher nat | ForceCloseSubscriber nat

text \<open>
  The fields of the class, under their names, followed by what the client acts on:
  the sockets it has constructed, its promises, its pending timers, the frames it has
  sent, every call of \<open>updatePublisherState\<close> / \<open>updateSubscriberState\<close> in order
  (\<open>transitions\<close>) and every call of a state change listener (\<open>notifications\<close>).
  Callbacks and listeners are compared by reference in the source; here they are numbers.
\<close>

record McastClient =
  autoReconnect :: bool
  maxReconnectAttempts :: number
  pubSocket :: "nat option"
  subSocket :: "nat option"
  pubState :: ConnectionState
  subState :: ConnectionState
  pubReconnectAttempts :: nat
  subReconnectAttempts :: nat
  listeners :: "string \<rightharpoonup> nat list"
  stateChangeListeners :: "nat list"
  pubConnectPromise :: "nat option"
  subConnectPromise :: "nat option"
  isDisconnecting :: bool
  sockets :: "socket list"
  promises :: "settled list"
  timers :: "timer list"
  sent :: "(nat \<times> string) list"
  transitions :: "(ConnectionState \<times> connectionType) list"
  notifications :: "(nat \<times> ConnectionState \<times> connectionType) list"

text \<open>The constructor: \<open>autoReconnect ?? true\<close>, \<open>maxReconnectAttempts ?? 5\<close>.\<close>

definition McastClient_new :: "bool option \<Rightarrow> number option \<Rightarrow> McastClient" where
  "McastClient_new optAutoReconnect optMaxReconnectAttempts =
     \<lparr> autoReconnect = (case optAutoReconnect of None \<Rightarrow> True | Some b \<Rightarrow> b),
       maxReconnectAttempts =
         (case optMaxReconnectAttempts of None \<Rightarrow> Finite 5 | Some n \<Rightarrow> n),
       pubSocket = None, subSocket = None,
       pubState = DISCONNECTED, subState = DISCONNECTED,
       pubReconnectAttempts = 0, subReconnectAttempts = 0,
       listeners = Map.empty, stateChangeListeners = [],
       pubConnectPromise = None, subConnectPromise = None,
       isDisconnecting = False,
       sockets = [], promises = [], timers = [], sent = [],
       transitions = [], notifications = [] \<rparr>"

section \<open>Promises and state updates\<close>

definition settle :: "nat \<Rightarrow> settled \<Rightarrow> settled list \<Rightarrow> settled list" where
  "settle p v ps = (if p < length ps \<and> ps ! p = Pending then ps[p := v] else ps)"

definition resolve :: "nat \<Rightarrow> McastClient \<Rightarrow> McastClient" where
  "resolve p c = c\<lparr>promises := settle p Fulfilled (promises c)\<rparr>"

definition reject :: "nat \<Rightarrow> error \<Rightarrow> McastClient \<Rightarrow> McastClient" where
  "reject p e c = c\<lparr>promises := settle p (Rejected e) (promises c)\<rparr>"

text \<open>
  \<open>notifyStateChangeListeners\<close>: every registered listener is called inside its own
  try/catch. The listeners of this model return, or throw a value that converts to a
  string: then the catch logs it and the next listener is called. A listener that throws
  a value with no string conversion (the catch builds its log text from the value) is not
  among them; for message callbacks that case is \<open>Unprintable\<close> below.
\<close>

definition notifyStateChangeListeners ::
  "ConnectionState \<Rightarrow> connectionType \<Rightarrow> McastClient \<Rightarrow> McastClient" where
  "notifyStateChangeListeners st r c =
     c\<lparr>notifications := notifications c @ map (\<lambda>l. (l, st, r)) (stateChangeListeners c)\<rparr>"

definition updatePublisherState :: "ConnectionState \<Rightarrow> McastClient \<Rightarrow> McastClient" where
  "updatePublisherState st c =
     notifyStateChangeListeners st publisher
       (c\<lparr>pubState := st, transitions := transitions c @ [(st, publisher)]\<rparr>)"

definition updateSubscriberState :: "ConnectionState \<Rightarrow> McastClient \<Rightarrow> McastClient" where
  "updateSubscriberState st c =
     notifyStateChangeListeners st subscriber
       (c\<lparr>subState := st, transitions := transitions c @ [(st, subscriber)]\<rparr>)"

definition getPublisherState :: "McastClient \<Rightarrow> ConnectionState" where
  "getPublisherState c = pubState c"

definition getSubscriberState :: "McastClient \<Rightarrow> ConnectionState" where
  "getSubscriberState c = subState c"

definition isSocketConnected :: "McastClient \<Rightarrow> nat option \<Rightarrow> bool" where
  "isSocketConnected c so =
     (case so of None \<Rightarrow> False
      | Some s \<Rightarrow> s < length (sockets c) \<and> readyState (sockets c ! s) = 1)"

section \<open>Connecting (connectPublisher, connectSubscriber)\<close>

text \<open>
  What a call into the transport does: the WebSocket constructor and \<open>close\<close> either
  return or throw. The test \<open>if (!this.pubSocket)\<close> that follows the constructor cannot
  succeed (\<open>new\<close> returns an object or throws), so it has no branch here.
\<close>

datatype callOutcome = Returns | Throws string

text \<open>
  What the caller of \<open>connectPublisher\<close> awaits: the shared in-flight promise,
  \<open>Promise.resolve()\<close> or \<open>Promise.reject(new Error("Client is disconnecting"))\<close>.
\<close>

datatype connectResult = Shared nat | ResolvedNow | RejectedNow error

fun awaited :: "McastClient \<Rightarrow> connectResult \<Rightarrow> settled" where
  "awaited c (Shared p) = (if p < length (promises c) then promises c ! p else Pending)"
| "awaited c ResolvedNow = Fulfilled"
| "awaited c (RejectedNow e) = Rejected e"

text \<open>
  The executor of \<open>new Promise\<close> runs before the assignment to \<open>pubConnectPromise\<close>:
  when the constructor throws, the catch block clears the field and rejects, and the
  assignment then stores the rejected promise.
\<close>

definition connectPublisher :: "callOutcome \<Rightarrow> McastClient \<Rightarrow> connectResult \<times> McastClient" where
  "connectPublisher ctor c =
     (case pubConnectPromise c of
        Some p \<Rightarrow> (Shared p, c)
      | None \<Rightarrow>
          if isSocketConnected c (pubSocket c) then (ResolvedNow, c)
          else if isDisconnecting c then (RejectedNow ClientIsDisconnecting, c)
          else
            let c1 = updatePublisherState CONNECTING c;
                p = length (promises c1);
                c2 = c1\<lparr>promises := promises c1 @ [Pending]\<rparr>;
                c3 = (case ctor of
                        Returns \<Rightarrow>
                          c2\<lparr>pubSocket := Some (length (sockets c2)),
                             sockets := sockets c2 @
                               [\<lparr>handlers = publisher, readyState = 0, attempt = p,
                                 closeListeners = []\<rparr>]\<rparr>
                      | Throws m \<Rightarrow> reject p (Thrown m) (c2\<lparr>pubConnectPromise := None\<rparr>))
            in (Shared p, c3\<lparr>pubConnectPromise := Some p\<rparr>))"

definition connectSubscriber :: "callOutcome \<Rightarrow> McastClient \<Rightarrow> connectResult \<times> McastClient" where
  "connectSubscriber ctor c =
     (case subConnectPromise c of
        Some p \<Rightarrow> (Shared p, c)
      | None \<Rightarrow>
          if isSocketConnected c (subSocket c) then (ResolvedNow, c)
          else if isDisconnecting c then (RejectedNow ClientIsDisconnecting, c)
          else
            let c1 = updateSubscriberState CONNECTING c;
                p = length (promises c1);
                c2 = c1\<lparr>promises := promises c1 @ [Pending]\<rparr>;
                c3 = (case ctor of
                        Returns \<Rightarrow>
                          c2\<lparr>subSocket := Some (length (sockets c2)),
                             sockets := sockets c2 @
                               [\<lparr>handlers = subscriber, readyState = 0, attempt = p,
                                 closeListeners = []\<rparr>]\<rparr>
                      | Throws m \<Rightarrow> reject p (Thrown m) (c2\<lparr>subConnectPromise := None\<rparr>))
            in (Shared p, c3\<lparr>subConnectPromise := Some p\<rparr>))"

section \<open>Reconnecting (attemptReconnectPublisher, attemptReconnectSubscriber)\<close>

definition attemptReconnectPublisher :: "McastClient \<Rightarrow> McastClient" where
  "attemptReconnectPublisher c =
     (if reached (pubReconnectAttempts c) (maxReconnectAttempts c) \<or> isDisconnecting c then c
      else
        let c1 = updatePublisherState RECONNECTING c;
            c2 = c1\<lparr>pubReconnectAttempts := pubReconnectAttempts c1 + 1\<rparr>
        in c2\<lparr>timers := timers c2 @ [ReconnectPublisher]\<rparr>)"

definition attemptReconnectSubscriber :: "McastClient \<Rightarrow> McastClient" where
  "attemptReconnectSubscriber c =
     (if reached (subReconnectAttempts c) (maxReconnectAttempts c) \<or> isDisconnecting c then c
      else
        let c1 = updateSubscriberState RECONNECTING c;
            c2 = c1\<lparr>subReconnectAttempts := subReconnectAttempts c1 + 1\<rparr>
        in c2\<lparr>timers := timers c2 @ [ReconnectSubscriber]\<rparr>)"

text \<open>
  The callback given to \<open>setTimeout\<close>, and the callback given to \<open>catch\<close> on the promise
  that the timeout's connect returned: it runs once that promise is rejected.
\<close>

definition reconnectPublisherTimeout :: "callOutcome \<Rightarrow> McastClient \<Rightarrow> McastClient" where
  "reconnectPublisherTimeout ctor c =
     (if \<not> isDisconnecting c then snd (connectPublisher ctor c) else c)"

definition reconnectSubscriberTimeout :: "callOutcome \<Rightarrow> McastClient \<Rightarrow> McastClient" where
  "reconnectSubscriberTimeout ctor c =
     (if \<not> isDisconnecting c then snd (connectSubscriber ctor c) else c)"

definition reconnectPublisherCatch :: "connectResult \<Rightarrow> McastClient \<Rightarrow> McastClient" where
  "reconnectPublisherCatch r c =
     (case awaited c r of Rejected e \<Rightarrow> attemptReconnectPublisher c | _ \<Rightarrow> c)"

definition reconnectSubscriberCatch :: "connectResult \<Rightarrow> McastClient \<Rightarrow> McastClient" where
  "reconnectSubscriberCatch r c =
     (case awaited c r of Rejected e \<Rightarrow> attemptReconnectSubscriber c | _ \<Rightarrow> c)"

section \<open>Socket handlers (onopen, onclose, onerror)\<close>

text \<open>\<open>event?.message || d\<close>: a missing or empty message gives the default.\<close>

definition messageOr :: "string option \<Rightarrow> string \<Rightarrow> string" where
  "messageOr m d = (case m of None \<Rightarrow> d | Some s \<Rightarrow> if s = [] then d else s)"

text \<open>
  Each handler is a closure over the \<open>resolve\<close> and \<open>reject\<close> of the promise \<open>p\<close> of the
  attempt that attached it; the fields it reads and writes are the current ones.
\<close>

definition pub_onopen :: "nat \<Rightarrow> McastClient \<Rightarrow> McastClient" where
  "pub_onopen p c =
     (let c1 = updatePublisherState CONNECTED c;
          c2 = c1\<lparr>pubReconnectAttempts := 0\<rparr>;
          c3 = resolve p c2
      in c3\<lparr>pubConnectPromise := None\<rparr>)"

definition pub_onclose :: "nat \<Rightarrow> string option \<Rightarrow> McastClient \<Rightarrow> McastClient" where
  "pub_onclose p m c =
     (let wasConnected = (pubState c = CONNECTED);
          c1 = updatePublisherState DISCONNECTED c;
          c2 = c1\<lparr>pubConnectPromise := None\<rparr>;
          c3 = (if wasConnected \<and> autoReconnect c2 \<and> \<not> isDisconnecting c2
                then attemptReconnectPublisher c2 else c2)
      in if \<not> wasConnected then reject p (WebSocketError (messageOr m ''Denied'')) c3 else c3)"

definition pub_onerror :: "nat \<Rightarrow> string option \<Rightarrow> McastClient \<Rightarrow> McastClient" where
  "pub_onerror p m c =
     (let c1 = updatePublisherState ERROR c;
          c2 = (if pubState c1 \<noteq> CONNECTED
                then reject p (WebSocketError (messageOr m ''Unknown error'')) c1 else c1)
      in c2\<lparr>pubConnectPromise := None\<rparr>)"

definition sub_onopen :: "nat \<Rightarrow> McastClient \<Rightarrow> McastClient" where
  "sub_onopen p c =
     (let c1 = updateSubscriberState CONNECTED c;
          c2 = c1\<lparr>subReconnectAttempts := 0\<rparr>;
          c3 = resolve p c2
      in c3\<lparr>subConnectPromise := None\<rparr>)"

definition sub_onclose :: "nat \<Rightarrow> string option \<Rightarrow> McastClient \<Rightarrow> McastClient" where
  "sub_onclose p m c =
     (let wasConnected = (subState c = CONNECTED);
          c1 = updateSubscriberState DISCONNECTED c;
          c2 = c1\<lparr>subConnectPromise := None\<rparr>;
          c3 = (if wasConnected \<and> autoReconnect c2 \<and> \<not> isDisconnecting c2
                then attemptReconnectSubscriber c2 else c2)
      in if \<not> wasConnected then reject p (WebSocketError (messageOr m ''Denied'')) c3 else c3)"

definition sub_onerror :: "nat \<Rightarrow> string option \<Rightarrow> McastClient \<Rightarrow> McastClient" where
  "sub_onerror p m c =
     (let c1 = updateSubscriberState ERROR c;
          c2 = (if subState c1 \<noteq> CONNECTED
                then reject p (WebSocketError (messageOr m ''Unknown error'')) c1 else c1)
      in c2\<lparr>subConnectPromise := None\<rparr>)"

section \<open>Dispatch (the onmessage handler of the subscriber socket)\<close>

text \<open>
  \<open>JSON.stringify\<close> and \<open>JSON.parse\<close> belong to the language, not to the repository:
  they are parameters. \<open>'p\<close> is the type of payloads (\<open>Record<string, any>\<close>).
  \<open>JSON.parse\<close> is used at two types, as the annotations of the source say: the frame
  parses to a \<open>SerializedMessage\<close>, its payload field to a payload. \<open>None\<close> stands for
  a throw.
\<close>

record 'p JSON =
  stringify_payload :: "'p \<Rightarrow> string option"
  stringify_message :: "SerializedMessage \<Rightarrow> string"
  parse_message :: "string \<Rightarrow> SerializedMessage option"
  parse_payload :: "string \<Rightarrow> 'p option"

text \<open>
  \<open>listeners\<close> is a plain object used as a dictionary, so a lookup finds the object's own
  properties and then the members it inherits from \<open>Object.prototype\<close>. An inherited
  member is a function (or, for \<open>__proto__\<close>, the prototype object): it is truthy, it is
  not iterable and it has no \<open>push\<close> and no \<open>filter\<close>.
\<close>

definition objectPrototypeMembers :: "string list" where
  "objectPrototypeMembers =
     [''constructor'', ''hasOwnProperty'', ''isPrototypeOf'', ''propertyIsEnumerable'',
      ''toLocaleString'', ''toString'', ''valueOf'', ''__proto__'',
      ''__defineGetter__'', ''__defineSetter__'', ''__lookupGetter__'', ''__lookupSetter__'']"

datatype 'a property = Undefined | Own 'a | Inherited

definition lookup :: "(string \<rightharpoonup> nat list) \<Rightarrow> string \<Rightarrow> nat list property" where
  "lookup m t =
     (case m t of
        Some cbs \<Rightarrow> Own cbs
      | None \<Rightarrow> if t \<in> set objectPrototypeMembers then Inherited else Undefined)"

text \<open>\<open>...(x ?? [])\<close>: the elements of an array, nothing for undefined, a TypeError otherwise.\<close>

definition spread :: "nat list property \<Rightarrow> nat list option" where
  "spread x = (case x of Undefined \<Rightarrow> Some [] | Own cbs \<Rightarrow> Some cbs | Inherited \<Rightarrow> None)"

text \<open>
  What a dispatch does, in order: the calls of callbacks with their arguments, and the
  calls of \<open>logDebug\<close>. What a callback does when called is a parameter: it returns or
  throws a value. The catch around the call evaluates \<open>`Error in message callback:
  ${error}`\<close>: for a value that converts to a string this is the log text, for one that
  does not (a Symbol, an object without prototype) the conversion throws a TypeError
  inside the catch, which leaves \<open>forEach\<close> and reaches the outer catch of the handler.
  Callbacks that call back into the client are outside this model.
\<close>

datatype thrown = Printable string | Unprintable

datatype callbackOutcome = Returned | Raised thrown

datatype 'p dispatched = Invoked nat string 'p | LogDebug string

text \<open>The second component says whether \<open>forEach\<close> ran to its end (\<open>None\<close>) or was left by a throw.\<close>

fun forEach_callback ::
  "(nat \<Rightarrow> string \<Rightarrow> 'p \<Rightarrow> callbackOutcome) \<Rightarrow> string \<Rightarrow> 'p \<Rightarrow> nat list \<Rightarrow>
     'p dispatched list \<times> error option" where
  "forEach_callback call t pl [] = ([], None)"
| "forEach_callback call t pl (cb # cbs) =
     (case call cb t pl of
        Returned \<Rightarrow>
          (Invoked cb t pl # fst (forEach_callback call t pl cbs),
           snd (forEach_callback call t pl cbs))
      | Raised (Printable m) \<Rightarrow>
          (Invoked cb t pl # LogDebug (''Error in message callback: '' @ m) #
             fst (forEach_callback call t pl cbs),
           snd (forEach_callback call t pl cbs))
      | Raised Unprintable \<Rightarrow> ([Invoked cb t pl], Some (Thrown ''TypeError'')))"

definition onmessage ::
  "'p JSON \<Rightarrow> (nat \<Rightarrow> string \<Rightarrow> 'p \<Rightarrow> callbackOutcome) \<Rightarrow> McastClient \<Rightarrow> string \<Rightarrow>
     'p dispatched list" where
  "onmessage js call c data =
     (case parse_message js data of
        None \<Rightarrow> [LogDebug ''Error processing WebSocket message: SyntaxError'']
      | Some message \<Rightarrow>
          (case spread (lookup (listeners c) (topic message)) of
             None \<Rightarrow> [LogDebug ''Error processing WebSocket message: TypeError'']
           | Some specific \<Rightarrow>
               (case spread (lookup (listeners c) TOPIC_ALL) of
                  None \<Rightarrow> [LogDebug ''Error processing WebSocket message: TypeError'']
                | Some wildcard \<Rightarrow>
                    let ls = specific @ wildcard
                    in if length ls > 0 then
                         (case parse_payload js (payload message) of
                            None \<Rightarrow> [LogDebug ''Failed to parse message payload'']
                          | Some parsedPayload \<Rightarrow>
                              (case forEach_callback call (topic message) parsedPayload ls of
                                 (ds, None) \<Rightarrow> ds
                               | (ds, Some e) \<Rightarrow>
                                   ds @ [LogDebug
                                     ''Error processing WebSocket message: TypeError'']))
                       else [])))"

fun invocations :: "'p dispatched list \<Rightarrow> (nat \<times> string \<times> 'p) list" where
  "invocations [] = []"
| "invocations (Invoked cb t pl # ds) = (cb, t, pl) # invocations ds"
| "invocations (LogDebug m # ds) = invocations ds"

section \<open>Public operations (publish, subscribe, unsubscribe, onStateChange)\<close>

text \<open>
  An async operation is split at its \<open>await\<close>: the part before it returns what is
  awaited, the part after it runs once that is settled (and does nothing while it is
  pending). \<open>publish\<close> and \<open>subscribe\<close> are the parts before the await.
\<close>

definition publish :: "callOutcome \<Rightarrow> McastClient \<Rightarrow> connectResult \<times> McastClient" where
  "publish ctor c = connectPublisher ctor c"

definition publish_frame :: "'p JSON \<Rightarrow> string \<Rightarrow> 'p \<Rightarrow> string option" where
  "publish_frame js t pl =
     (case stringify_payload js pl of
        None \<Rightarrow> None
      | Some s \<Rightarrow> Some (stringify_message js (SerializedMessage t s)))"

text \<open>
  The transport's \<open>send\<close>: it throws on a socket that is still connecting, transmits on an
  open one, and discards the data without an error on a closing or closed one. \<open>sent\<close>
  holds what was transmitted.
\<close>

definition socket_send :: "nat \<Rightarrow> string \<Rightarrow> McastClient \<Rightarrow> callOutcome \<times> McastClient" where
  "socket_send s frame c =
     (if s < length (sockets c) \<and> readyState (sockets c ! s) = 0
      then (Throws ''InvalidStateError'', c)
      else if s < length (sockets c) \<and> readyState (sockets c ! s) = 1
      then (Returns, c\<lparr>sent := sent c @ [(s, frame)]\<rparr>)
      else (Returns, c))"

definition publish_resume ::
  "'p JSON \<Rightarrow> connectResult \<Rightarrow> string \<Rightarrow> 'p \<Rightarrow> McastClient \<Rightarrow> settled \<times> McastClient" where
  "publish_resume js r t pl c =
     (case awaited c r of
        Pending \<Rightarrow> (Pending, c)
      | Rejected e \<Rightarrow> (Rejected e, c)
      | Fulfilled \<Rightarrow>
          (case publish_frame js t pl of
             None \<Rightarrow> (Rejected (Thrown ''JSON.stringify''), c)
           | Some frame \<Rightarrow>
               (case pubSocket c of
                  None \<Rightarrow> (Fulfilled, c)
                | Some s \<Rightarrow>
                    (case fst (socket_send s frame c) of
                       Returns \<Rightarrow> (Fulfilled, snd (socket_send s frame c))
                     | Throws m \<Rightarrow> (Rejected (Thrown m), snd (socket_send s frame c))))))"

text \<open>The argument \<open>topics?: string | string[]\<close> and its normalisation.\<close>

datatype topicsArg = NoTopics | Topic string | Topics "string list"

definition topicArray :: "topicsArg \<Rightarrow> string list" where
  "topicArray ts =
     (let arr = (case ts of NoTopics \<Rightarrow> [TOPIC_ALL] | Topic t \<Rightarrow> [t] | Topics l \<Rightarrow> l)
      in if TOPIC_ALL \<in> set arr then [TOPIC_ALL] else arr)"

text \<open>
  The loop of \<open>subscribe\<close> over the topics: \<open>if (!this.listeners[topic])
  this.listeners[topic] = []\<close>, then \<open>this.listeners[topic].push(callback)\<close>. For the
  name of an inherited member the test finds something truthy and \<open>push\<close> is not a
  function: the TypeError leaves the loop, with the topics before it registered.
\<close>

fun addCallback ::
  "nat \<Rightarrow> string list \<Rightarrow> (string \<rightharpoonup> nat list) \<Rightarrow> error option \<times> (string \<rightharpoonup> nat list)" where
  "addCallback cb [] m = (None, m)"
| "addCallback cb (t # ts) m =
     (case lookup m t of
        Undefined \<Rightarrow> addCallback cb ts (m(t \<mapsto> [cb]))
      | Own cbs \<Rightarrow> addCallback cb ts (m(t \<mapsto> cbs @ [cb]))
      | Inherited \<Rightarrow> (Some (Thrown ''TypeError''), m))"

definition subscribe :: "callOutcome \<Rightarrow> McastClient \<Rightarrow> connectResult \<times> McastClient" where
  "subscribe ctor c = connectSubscriber ctor c"

definition subscribe_resume ::
  "connectResult \<Rightarrow> nat \<Rightarrow> topicsArg \<Rightarrow> McastClient \<Rightarrow> settled \<times> McastClient" where
  "subscribe_resume r cb ts c =
     (case awaited c r of
        Pending \<Rightarrow> (Pending, c)
      | Rejected e \<Rightarrow> (Rejected e, c)
      | Fulfilled \<Rightarrow>
          (case fst (addCallback cb (topicArray ts) (listeners c)) of
             None \<Rightarrow> Fulfilled
           | Some e \<Rightarrow> Rejected e,
           c\<lparr>listeners := snd (addCallback cb (topicArray ts) (listeners c))\<rparr>))"

text \<open>
  \<open>unsubscribe\<close> is synchronous and says whether it returned or threw. For the name of
  an inherited member, \<open>filter\<close> is not a function, and \<open>delete\<close> of a property that is
  not the object's own does nothing.
\<close>

definition unsubscribe :: "string \<Rightarrow> nat option \<Rightarrow> McastClient \<Rightarrow> callOutcome \<times> McastClient" where
  "unsubscribe t cbo c =
     (case lookup (listeners c) t of
        Undefined \<Rightarrow> (Returns, c)
      | Own cbs \<Rightarrow>
          (case cbo of
             Some cb \<Rightarrow>
               let cbs' = filter (\<lambda>x. x \<noteq> cb) cbs
               in if length cbs' = 0 then (Returns, c\<lparr>listeners := (listeners c)(t := None)\<rparr>)
                  else (Returns, c\<lparr>listeners := (listeners c)(t \<mapsto> cbs')\<rparr>)
           | None \<Rightarrow> (Returns, c\<lparr>listeners := (listeners c)(t := None)\<rparr>))
      | Inherited \<Rightarrow>
          (case cbo of
             Some cb \<Rightarrow> (Throws ''TypeError'', c)
           | None \<Rightarrow> (Returns, c)))"

definition onStateChange :: "nat \<Rightarrow> McastClient \<Rightarrow> McastClient" where
  "onStateChange l c = c\<lparr>stateChangeListeners := stateChangeListeners c @ [l]\<rparr>"

definition removeStateChangeListener :: "nat \<Rightarrow> McastClient \<Rightarrow> McastClient" where
  "removeStateChangeListener l c =
     c\<lparr>stateChangeListeners := filter (\<lambda>x. x \<noteq> l) (stateChangeListeners c)\<rparr>"

section \<open>Shutdown (disconnect)\<close>

text \<open>
  The transport's \<open>close\<close>: a connecting or open socket starts closing, a closing or
  closed one is left as it is. \<open>addCloseListener\<close> is \<open>addEventListener("close", onClose)\<close>
  for the \<open>onClose\<close> that resolves promise \<open>q\<close>. That \<open>onClose\<close> also removes itself; the
  removal is left out, since all it changes is whether a second close event of the same
  socket calls \<open>resolve\<close> on a promise that is settled by then.
\<close>

definition withSocket :: "nat \<Rightarrow> (socket \<Rightarrow> socket) \<Rightarrow> socket list \<Rightarrow> socket list" where
  "withSocket s f ss = (if s < length ss then ss[s := f (ss ! s)] else ss)"

definition socket_close :: "nat \<Rightarrow> McastClient \<Rightarrow> McastClient" where
  "socket_close s c =
     c\<lparr>sockets :=
         withSocket s (\<lambda>k. if readyState k < 2 then k\<lparr>readyState := 2\<rparr> else k) (sockets c)\<rparr>"

definition addCloseListener :: "nat \<Rightarrow> nat \<Rightarrow> McastClient \<Rightarrow> McastClient" where
  "addCloseListener s q c =
     c\<lparr>sockets :=
         withSocket s (\<lambda>k. k\<lparr>closeListeners := closeListeners k @ [q]\<rparr>) (sockets c)\<rparr>"

text \<open>
  \<open>disconnect\<close> has two awaits. \<open>disconnect\<close> below is the part up to the first await
  reached, \<open>disconnect_afterPublisher\<close> and \<open>disconnect_afterSubscriber\<close> continue once
  the awaited promise is fulfilled; each says where the call stands.
\<close>

datatype disconnectStage = AwaitPublisherClosed nat | AwaitSubscriberClosed nat | Disconnected

definition disconnect_finish :: "McastClient \<Rightarrow> disconnectStage \<times> McastClient" where
  "disconnect_finish c = (Disconnected, c\<lparr>pubConnectPromise := None, subConnectPromise := None\<rparr>)"

definition disconnect_subscriber :: "callOutcome \<Rightarrow> McastClient \<Rightarrow> disconnectStage \<times> McastClient" where
  "disconnect_subscriber cl c =
     (case subSocket c of
        None \<Rightarrow> disconnect_finish c
      | Some s \<Rightarrow>
          let c1 = updateSubscriberState DISCONNECTING c;
              q = length (promises c1);
              c2 = c1\<lparr>promises := promises c1 @ [Pending]\<rparr>;
              c3 = addCloseListener s q c2;
              c4 = c3\<lparr>timers := timers c3 @ [ForceCloseSubscriber q]\<rparr>;
              c5 = (case cl of
                      Returns \<Rightarrow> socket_close s c4
                    | Throws m \<Rightarrow> resolve q (c4\<lparr>subSocket := None\<rparr>))
          in (AwaitSubscriberClosed q, c5))"

definition disconnect :: "callOutcome \<Rightarrow> callOutcome \<Rightarrow> McastClient \<Rightarrow> disconnectStage \<times> McastClient" where
  "disconnect clPub clSub c =
     (let c0 = c\<lparr>isDisconnecting := True\<rparr>
      in case pubSocket c0 of
           None \<Rightarrow> disconnect_subscriber clSub c0
         | Some s \<Rightarrow>
             let c1 = updatePublisherState DISCONNECTING c0;
                 q = length (promises c1);
                 c2 = c1\<lparr>promises := promises c1 @ [Pending]\<rparr>;
                 c3 = addCloseListener s q c2;
                 c4 = c3\<lparr>timers := timers c3 @ [ForceClosePublisher q]\<rparr>;
                 c5 = (case clPub of
                         Returns \<Rightarrow> socket_close s c4
                       | Throws m \<Rightarrow> resolve q (c4\<lparr>pubSocket := None\<rparr>))
             in (AwaitPublisherClosed q, c5))"

definition disconnect_afterPublisher ::
  "nat \<Rightarrow> callOutcome \<Rightarrow> McastClient \<Rightarrow> disconnectStage \<times> McastClient" where
  "disconnect_afterPublisher q clSub c =
     (if awaited c (Shared q) = Fulfilled
      then disconnect_subscriber clSub (c\<lparr>pubSocket := None\<rparr>)
      else (AwaitPublisherClosed q, c))"

definition disconnect_afterSubscriber :: "nat \<Rightarrow> McastClient \<Rightarrow> disconnectStage \<times> McastClient" where
  "disconnect_afterSubscriber q c =
     (if awaited c (Shared q) = Fulfilled
      then disconnect_finish (c\<lparr>subSocket := None\<rparr>)
      else (AwaitSubscriberClosed q, c))"

text \<open>The callbacks of the one-second timers set by \<open>disconnect\<close>.\<close>

definition forceClosePublisher :: "nat \<Rightarrow> McastClient \<Rightarrow> McastClient" where
  "forceClosePublisher q c =
     resolve q (c\<lparr>pubSocket := (if pubSocket c \<noteq> None then None else pubSocket c)\<rparr>)"

definition forceCloseSubscriber :: "nat \<Rightarrow> McastClient \<Rightarrow> McastClient" where
  "forceCloseSubscriber q c =
     resolve q (c\<lparr>subSocket := (if subSocket c \<noteq> None then None else subSocket c)\<rparr>)"

section \<open>The event loop\<close>

text \<open>
  The transport fires an event of a socket: the socket's \<open>readyState\<close> is what the
  WebSocket interface prescribes at that event, then the handlers attached to that socket
  run. A close event runs \<open>onclose\<close> and then the close listeners, in the order of
  attachment. At an error event a socket that was connecting or open is no longer so:
  it is closing here (a browser reports it closed already; the client only asks whether
  a socket is open). Nothing is assumed about which events the transport fires, or when.
\<close>

definition setReadyState :: "nat \<Rightarrow> nat \<Rightarrow> McastClient \<Rightarrow> McastClient" where
  "setReadyState s n c = c\<lparr>sockets := withSocket s (\<lambda>k. k\<lparr>readyState := n\<rparr>) (sockets c)\<rparr>"

definition socketOpen :: "nat \<Rightarrow> McastClient \<Rightarrow> McastClient" where
  "socketOpen s c =
     (if s < length (sockets c) then
        (case handlers (sockets c ! s) of
           publisher \<Rightarrow> pub_onopen (attempt (sockets c ! s)) (setReadyState s 1 c)
         | subscriber \<Rightarrow> sub_onopen (attempt (sockets c ! s)) (setReadyState s 1 c))
      else c)"

definition socketClose :: "nat \<Rightarrow> string option \<Rightarrow> McastClient \<Rightarrow> McastClient" where
  "socketClose s m c =
     (if s < length (sockets c) then
        fold resolve (closeListeners (sockets c ! s))
          (case handlers (sockets c ! s) of
             publisher \<Rightarrow> pub_onclose (attempt (sockets c ! s)) m (setReadyState s 3 c)
           | subscriber \<Rightarrow> sub_onclose (attempt (sockets c ! s)) m (setReadyState s 3 c))
      else c)"

definition socketError :: "nat \<Rightarrow> string option \<Rightarrow> McastClient \<Rightarrow> McastClient" where
  "socketError s m c =
     (if s < length (sockets c) then
        (case handlers (sockets c ! s) of
           publisher \<Rightarrow> pub_onerror (attempt (sockets c ! s)) m (socket_close s c)
         | subscriber \<Rightarrow> sub_onerror (attempt (sockets c ! s)) m (socket_close s c))
      else c)"

definition timerFires :: "timer \<Rightarrow> callOutcome \<Rightarrow> McastClient \<Rightarrow> McastClient" where
  "timerFires t ctor c =
     (if t \<in> set (timers c) then
        (let c1 = c\<lparr>timers := remove1 t (timers c)\<rparr>
         in case t of
              ReconnectPublisher \<Rightarrow> reconnectPublisherTimeout ctor c1
            | ReconnectSubscriber \<Rightarrow> reconnectSubscriberTimeout ctor c1
            | ForceClosePublisher q \<Rightarrow> forceClosePublisher q c1
            | ForceCloseSubscriber q \<Rightarrow> forceCloseSubscriber q c1)
      else c)"

text \<open>
  Everything that can happen to a client, one turn of the event loop each: a call of a
  public operation, the continuation of an async operation, an event of a socket, a
  timer, the \<open>catch\<close> of a reconnect. A message event changes no field of the client
  (what it does is \<open>onmessage\<close> above).
\<close>

datatype 'p event =
    Publish callOutcome
  | PublishResumes connectResult string 'p
  | Subscribe callOutcome
  | SubscribeResumes connectResult nat topicsArg
  | Unsubscribe string "nat option"
  | OnStateChange nat
  | RemoveStateChangeListener nat
  | Disconnect callOutcome callOutcome
  | DisconnectAfterPublisher nat callOutcome
  | DisconnectAfterSubscriber nat
  | SocketOpen nat
  | SocketClose nat "string option"
  | SocketError nat "string option"
  | SocketMessage nat string
  | TimerFires timer callOutcome
  | ReconnectCatch connectionType connectResult

fun step :: "'p JSON \<Rightarrow> McastClient \<Rightarrow> 'p event \<Rightarrow> McastClient" where
  "step js c (Publish ctor) = snd (publish ctor c)"
| "step js c (PublishResumes r t pl) = snd (publish_resume js r t pl c)"
| "step js c (Subscribe ctor) = snd (subscribe ctor c)"
| "step js c (SubscribeResumes r cb ts) = snd (subscribe_resume r cb ts c)"
| "step js c (Unsubscribe t cbo) = snd (unsubscribe t cbo c)"
| "step js c (OnStateChange l) = onStateChange l c"
| "step js c (RemoveStateChangeListener l) = removeStateChangeListener l c"
| "step js c (Disconnect clPub clSub) = snd (disconnect clPub clSub c)"
| "step js c (DisconnectAfterPublisher q clSub) = snd (disconnect_afterPublisher q clSub c)"
| "step js c (DisconnectAfterSubscriber q) = snd (disconnect_afterSubscriber q c)"
| "step js c (SocketOpen s) = socketOpen s c"
| "step js c (SocketClose s m) = socketClose s m c"
| "step js c (SocketError s m) = socketError s m c"
| "step js c (SocketMessage s data) = c"
| "step js c (TimerFires t ctor) = timerFires t ctor c"
| "step js c (ReconnectCatch role r) =
     (case role of
        publisher \<Rightarrow> reconnectPublisherCatch r c
      | subscriber \<Rightarrow> reconnectSubscriberCatch r c)"

definition run :: "'p JSON \<Rightarrow> McastClient \<Rightarrow> 'p event list \<Rightarrow> McastClient" where
  "run js c es = foldl (step js) c es"

section \<open>An instance of JSON for running the model\<close>

text \<open>
  A small \<open>JSON.stringify\<close> / \<open>JSON.parse\<close> for running the model on concrete frames:
  objects whose members are strings of printable ASCII characters, written without white
  space as \<open>JSON.stringify\<close> writes them, with the escapes for the quote and the
  backslash. A payload like \<open>{"id":"msg-1"}\<close> is such an object, and so is the envelope,
  whose members \<open>JSON.stringify\<close> writes in the order \<open>topic\<close>, \<open>payload\<close>. Other texts
  do not parse here. The general lemmas hold for any JSON.
\<close>

definition quoteChar :: char where
  "quoteChar = CHR 0x22"

definition backslash :: char where
  "backslash = CHR 0x5C"

fun escapeString :: "string \<Rightarrow> string" where
  "escapeString [] = []"
| "escapeString (ch # cs) =
     (if ch = quoteChar \<or> ch = backslash then [backslash, ch] else [ch]) @ escapeString cs"

definition quoted :: "string \<Rightarrow> string" where
  "quoted s = [quoteChar] @ escapeString s @ [quoteChar]"

fun stringifyMembers :: "(string \<times> string) list \<Rightarrow> string" where
  "stringifyMembers [] = []"
| "stringifyMembers [(k, v)] = quoted k @ '':'' @ quoted v"
| "stringifyMembers ((k, v) # kvs) = quoted k @ '':'' @ quoted v @ '','' @ stringifyMembers kvs"

definition stringifyObject :: "(string \<times> string) list \<Rightarrow> string" where
  "stringifyObject kvs = ''{'' @ stringifyMembers kvs @ ''}''"

text \<open>\<open>parseQuoted acc inp\<close> reads a string whose opening quote has been read.\<close>

fun parseQuoted :: "string \<Rightarrow> string \<Rightarrow> (string \<times> string) option" where
  "parseQuoted acc [] = None"
| "parseQuoted acc [ch] = (if ch = quoteChar then Some (rev acc, []) else None)"
| "parseQuoted acc (ch # e # cs) =
     (if ch = quoteChar then Some (rev acc, e # cs)
      else if ch = backslash then
        (if e = quoteChar \<or> e = backslash then parseQuoted (e # acc) cs else None)
      else parseQuoted (ch # acc) (e # cs))"

fun parseMembers :: "nat \<Rightarrow> string \<Rightarrow> (string \<times> string) list option" where
  "parseMembers 0 inp = None"
| "parseMembers (Suc n) inp =
     (case inp of
        [] \<Rightarrow> None
      | q # r0 \<Rightarrow>
          if q \<noteq> quoteChar then None
          else
            (case parseQuoted [] r0 of
               None \<Rightarrow> None
             | Some (k, r1) \<Rightarrow>
                 (case r1 of
                    col # q2 # r2 \<Rightarrow>
                      if col \<noteq> CHR '':'' \<or> q2 \<noteq> quoteChar then None
                      else
                        (case parseQuoted [] r2 of
                           None \<Rightarrow> None
                         | Some (v, r3) \<Rightarrow>
                             (case r3 of
                                [] \<Rightarrow> None
                              | x # r4 \<Rightarrow>
                                  if x = CHR ''}'' \<and> r4 = [] then Some [(k, v)]
                                  else if x = CHR '','' then
                                    map_option ((#) (k, v)) (parseMembers n r4)
                                  else None))
                  | _ \<Rightarrow> None)))"

definition parseObject :: "string \<Rightarrow> (string \<times> string) list option" where
  "parseObject inp =
     (if inp = ''{}'' then Some []
      else case inp of
             [] \<Rightarrow> None
           | b # r \<Rightarrow> if b = CHR ''{'' then parseMembers (length r) r else None)"

definition objectJSON :: "(string \<times> string) list JSON" where
  "objectJSON =
     \<lparr> stringify_payload = (\<lambda>kvs. Some (stringifyObject kvs)),
       stringify_message =
         (\<lambda>m. stringifyObject [(''topic'', topic m), (''payload'', payload m)]),
       parse_message =
         (\<lambda>inp. case parseObject inp of
                  Some [(k1, t), (k2, s)] \<Rightarrow>
                    if k1 = ''topic'' \<and> k2 = ''payload'' then Some (SerializedMessage t s)
                    else None
                | _ \<Rightarrow> None),
       parse_payload = parseObject \<rparr>"

section \<open>Notions used by the properties\<close>

text \<open>The callbacks registered under a topic, in registration order.\<close>

definition registered :: "McastClient \<Rightarrow> string \<Rightarrow> nat list" where
  "registered c t = (case listeners c t of None \<Rightarrow> [] | Some cbs \<Rightarrow> cbs)"

fun attemptsOf :: "connectionType \<Rightarrow> McastClient \<Rightarrow> nat" where
  "attemptsOf publisher c = pubReconnectAttempts c"
| "attemptsOf subscriber c = subReconnectAttempts c"


text \<open>The role has made as many attempts as \<open>attemptReconnect...\<close> allows.\<close>

definition exhausted :: "connectionType \<Rightarrow> McastClient \<Rightarrow> bool" where
  "exhausted r c \<longleftrightarrow> reached (attemptsOf r c) (maxReconnectAttempts c)"

text \<open>No callback of the list throws a value without string conversion at these arguments.\<close>

definition printable ::
  "(nat \<Rightarrow> string \<Rightarrow> 'p \<Rightarrow> callbackOutcome) \<Rightarrow> string \<Rightarrow> 'p \<Rightarrow> nat list \<Rightarrow> bool" where
  "printable call t pl cbs \<longleftrightarrow> list_all (\<lambda>cb. call cb t pl \<noteq> Raised Unprintable) cbs"


definition connectingTransition :: "ConnectionState \<times> connectionType \<Rightarrow> bool" where
  "connectingTransition x \<longleftrightarrow> fst x = CONNECTING \<or> fst x = RECONNECTING"

fun reconnectTimer :: "timer \<Rightarrow> bool" where
  "reconnectTimer ReconnectPublisher = True"
| "reconnectTimer ReconnectSubscriber = True"
| "reconnectTimer t = False"

text \<open>
  What a step may do once the shutdown flag is set: the flag stays, no socket is
  constructed, no transition to \<open>CONNECTING\<close> or \<open>RECONNECTING\<close> is made, no reconnect
  timer is added and no retry counter grows.
\<close>

definition quiet :: "McastClient \<Rightarrow> McastClient \<Rightarrow> bool" where
  "quiet c c' \<longleftrightarrow>
     isDisconnecting c' \<and>
     length (sockets c') = length (sockets c) \<and>
     filter connectingTransition (transitions c') = filter connectingTransition (transitions c) \<and>
     length (filter reconnectTimer (timers c')) \<le> length (filter reconnectTimer (timers c)) \<and>
     pubReconnectAttempts c' \<le> pubReconnectAttempts c \<and>
     subReconnectAttempts c' \<le> subReconnectAttempts c"

subsection \<open>Concrete runs\<close>

text \<open>A client with default options whose publisher has connected.\<close>

definition connected_client :: McastClient where
  "connected_client = run objectJSON (McastClient_new None None) [Publish Returns, SocketOpen 0]"

text \<open>The same client after the server has closed the connection.\<close>

definition dropped_client :: McastClient where
  "dropped_client = run objectJSON connected_client [SocketClose 0 None]"






text \<open>A client that has begun to disconnect while its publisher was connected.\<close>

definition closing_client :: McastClient where
  "closing_client = snd (disconnect Returns Returns connected_client)"

definition closing_events :: "(string \<times> string) list event list" where
  "closing_events =
     [Publish Returns, SocketClose 0 None, TimerFires ReconnectPublisher Returns,
      ReconnectCatch publisher (RejectedNow ClientIsDisconnecting),
      DisconnectAfterPublisher 1 Returns, Subscribe Returns, SocketClose 0 None]"

text \<open>
  A subscriber that has connected and subscribed three times: callback 7 to \<open>updates\<close>,
  callback 9 to all topics, callback 8 to \<open>updates\<close> and \<open>news\<close>.
\<close>

definition subscribed_client :: McastClient where
  "subscribed_client =
     run objectJSON (McastClient_new None None)
       [Subscribe Returns, SocketOpen 0, SubscribeResumes (Shared 0) 7 (Topic ''updates''),
        Subscribe Returns, SubscribeResumes ResolvedNow 9 NoTopics,
        Subscribe Returns, SubscribeResumes ResolvedNow 8 (Topics [''updates'', ''news''])]"

definition sample_payload :: "(string \<times> string) list" where
  "sample_payload = [(''id'', ''msg-1''), (''text'', ''hello'')]"

text \<open>The frames that \<open>publish\<close> sends for this payload on two topics.\<close>

definition sample_frame :: string where
  "sample_frame =
     stringify_message objectJSON (SerializedMessage ''updates'' (stringifyObject sample_payload))"

definition constructor_frame :: string where
  "constructor_frame =
     stringify_message objectJSON
       (SerializedMessage ''constructor'' (stringifyObject sample_payload))"

text \<open>What callbacks do in the runs: all return; or one of them throws.\<close>

definition allReturn :: "nat \<Rightarrow> string \<Rightarrow> (string \<times> string) list \<Rightarrow> callbackOutcome" where
  "allReturn cb t pl = Returned"

definition throwsAt ::
  "nat \<Rightarrow> thrown \<Rightarrow> nat \<Rightarrow> string \<Rightarrow> (string \<times> string) list \<Rightarrow> callbackOutcome" where
  "throwsAt k v cb t pl = (if cb = k then Raised v else Returned)"

text \<open>A subscriber whose first connection attempt was closed before it opened.\<close>

definition denied_client :: McastClient where
  "denied_client =
     run objectJSON (McastClient_new None None) [Subscribe Returns, SocketClose 0 None]"

section \<open>Unfolding the operations\<close>

lemmas state_defs =
  updatePublisherState_def updateSubscriberState_def notifyStateChangeListeners_def
  resolve_def reject_def

lemmas connect_defs =
  connectPublisher_def connectSubscriber_def isSocketConnected_def
  attemptReconnectPublisher_def attemptReconnectSubscriber_def
  reconnectPublisherTimeout_def reconnectSubscriberTimeout_def
  reconnectPublisherCatch_def reconnectSubscriberCatch_def

lemmas handler_defs =
  pub_onopen_def pub_onclose_def pub_onerror_def
  sub_onopen_def sub_onclose_def sub_onerror_def

lemmas operation_defs =
  publish_def publish_resume_def socket_send_def subscribe_def subscribe_resume_def
  unsubscribe_def onStateChange_def removeStateChangeListener_def

lemmas disconnect_defs =
  socket_close_def addCloseListener_def withSocket_def disconnect_finish_def
  disconnect_subscriber_def disconnect_def disconnect_afterPublisher_def
  disconnect_afterSubscriber_def forceClosePublisher_def forceCloseSubscriber_def

lemmas run_defs =
  state_defs connect_defs handler_defs operation_defs disconnect_defs settle_def messageOr_def
  setReadyState_def socketOpen_def socketError_def socketClose_def timerFires_def
  run_def McastClient_new_def

lemmas registry_defs =
  lookup_def spread_def objectPrototypeMembers_def TOPIC_ALL_def topicArray_def registered_def

lemmas objectJSON_defs =
  objectJSON_def stringifyObject_def quoted_def quoteChar_def backslash_def parseObject_def

lemma fold_resolve:
  "fold resolve qs c = c\<lparr>promises := fold (\<lambda>q. settle q Fulfilled) qs (promises c)\<rparr>"
  by (induction qs arbitrary: c) (simp_all add: resolve_def)

lemma socketClose_handlers:
  "socketClose s m c =
     (if s < length (sockets c) then
        (let c' = (case handlers (sockets c ! s) of
                     publisher \<Rightarrow> pub_onclose (attempt (sockets c ! s)) m (setReadyState s 3 c)
                   | subscriber \<Rightarrow> sub_onclose (attempt (sockets c ! s)) m (setReadyState s 3 c))
         in c'\<lparr>promises :=
                 fold (\<lambda>q. settle q Fulfilled) (closeListeners (sockets c ! s)) (promises c')\<rparr>)
      else c)"
  by (simp add: socketClose_def fold_resolve Let_def)

lemmas frame_defs =
  state_defs connect_defs handler_defs operation_defs disconnect_defs
  setReadyState_def socketOpen_def socketError_def socketClose_handlers timerFires_def

lemma length_filter_remove1: "length (filter P (remove1 x xs)) \<le> length (filter P xs)"
  by (induction xs) auto

lemma run_Cons: "run js c (e # es) = run js (step js c e) es"
  by (simp add: run_def)

section \<open>Coalescing of connection attempts\<close>

text \<open>
  A call of \<open>connectPublisher\<close> that follows another one with nothing in between changes
  nothing and is returned what the first call was returned; so any number of calls made
  in one turn construct at most one socket. The same holds for \<open>connectSubscriber\<close>.
\<close>

lemma connectPublisher_shared:
  "pubConnectPromise c = Some p \<Longrightarrow> connectPublisher ctor c = (Shared p, c)"
  by (simp add: connectPublisher_def)

lemma connectPublisher_holds_result:
  "pubConnectPromise c = None \<Longrightarrow> \<not> isSocketConnected c (pubSocket c) \<Longrightarrow>
   \<not> isDisconnecting c \<Longrightarrow>
   \<exists>p. fst (connectPublisher ctor c) = Shared p \<and>
       pubConnectPromise (snd (connectPublisher ctor c)) = Some p"
  by (simp add: connectPublisher_def Let_def)

lemma connectPublisher_coalesces:
  "connectPublisher ctor' (snd (connectPublisher ctor c)) = connectPublisher ctor c"
proof (cases "pubConnectPromise c = None \<and> \<not> isSocketConnected c (pubSocket c) \<and>
    \<not> isDisconnecting c")
  case True
  then obtain p where p: "fst (connectPublisher ctor c) = Shared p"
      "pubConnectPromise (snd (connectPublisher ctor c)) = Some p"
    using connectPublisher_holds_result by blast
  show ?thesis
    using connectPublisher_shared[OF p(2), of ctor'] p(1) by (simp add: prod_eq_iff)
next
  case False
  then show ?thesis
    by (auto simp: connectPublisher_def split: option.splits)
qed

lemma connectSubscriber_shared:
  "subConnectPromise c = Some p \<Longrightarrow> connectSubscriber ctor c = (Shared p, c)"
  by (simp add: connectSubscriber_def)

lemma connectSubscriber_holds_result:
  "subConnectPromise c = None \<Longrightarrow> \<not> isSocketConnected c (subSocket c) \<Longrightarrow>
   \<not> isDisconnecting c \<Longrightarrow>
   \<exists>p. fst (connectSubscriber ctor c) = Shared p \<and>
       subConnectPromise (snd (connectSubscriber ctor c)) = Some p"
  by (simp add: connectSubscriber_def Let_def)

lemma connectSubscriber_coalesces:
  "connectSubscriber ctor' (snd (connectSubscriber ctor c)) = connectSubscriber ctor c"
proof (cases "subConnectPromise c = None \<and> \<not> isSocketConnected c (subSocket c) \<and>
    \<not> isDisconnecting c")
  case True
  then obtain p where p: "fst (connectSubscriber ctor c) = Shared p"
      "subConnectPromise (snd (connectSubscriber ctor c)) = Some p"
    using connectSubscriber_holds_result by blast
  show ?thesis
    using connectSubscriber_shared[OF p(2), of ctor'] p(1) by (simp add: prod_eq_iff)
next
  case False
  then show ?thesis
    by (auto simp: connectSubscriber_def split: option.splits)
qed

lemma connectPublisher_constructs_at_most_one:
  "length (sockets (snd (connectPublisher ctor c))) \<le> Suc (length (sockets c))"
  by (simp add: connectPublisher_def state_defs Let_def split: option.splits callOutcome.splits)

lemma connectSubscriber_constructs_at_most_one:
  "length (sockets (snd (connectSubscriber ctor c))) \<le> Suc (length (sockets c))"
  by (simp add: connectSubscriber_def state_defs Let_def split: option.splits callOutcome.splits)

text \<open>
  C1. For each role at most one connection attempt is in flight at any instant: calls of
  \<open>publish\<close> (or \<open>subscribe\<close>) that overlap before the attempt settles construct one socket
  and share one pending promise.

  The run below breaks this. The close handler of a socket clears \<open>pubConnectPromise\<close>
  whichever attempt the field holds. The first socket fails: its error event rejects the
  first attempt; the caller calls \<open>publish\<close> again (second socket, second attempt
  pending); the close event of the first socket then clears the field; the next \<open>publish\<close>
  constructs a third socket while the second is still connecting, and its caller holds a
  different pending promise.
\<close>

theorem stale_close_allows_second_attempt:
  "let c1 = run objectJSON (McastClient_new None None) [Publish Returns, SocketError 0 None];
       (r2, c2) = publish Returns c1;
       c3 = step objectJSON c2 (SocketClose 0 None);
       (r3, c4) = publish Returns c3
   in r2 = Shared 1 \<and> r3 = Shared 2 \<and>
      awaited c4 r2 = Pending \<and> awaited c4 r3 = Pending \<and>
      map handlers (sockets c4) = [publisher, publisher, publisher] \<and>
      map readyState (sockets c4) = [3, 0, 0]"
  by (simp add: run_defs Let_def)

section \<open>Retry bound\<close>










text \<open>
  With a ceiling of 2.5 the test \<open>2 >= 2.5\<close> fails, a third attempt is scheduled and the
  counter stands at 3. With \<open>NaN\<close> the test never succeeds.
\<close>

lemma nan_ceiling_never_exhausted:
  "maxReconnectAttempts c = NaN \<Longrightarrow> \<not> exhausted r c"
  by (simp add: exhausted_def)






section \<open>Shutdown\<close>

lemma connected_client_facts:
  "awaited connected_client (Shared 0) = Fulfilled \<and> pubSocket connected_client = Some 0 \<and>
   pubState connected_client = CONNECTED \<and> autoReconnect connected_client \<and>
   sent connected_client = []"
  by (simp add: connected_client_def run_defs Let_def)


text \<open>
  When the socket closes during the wait, \<open>onclose\<close> moves the role to \<open>DISCONNECTED\<close>
  before \<open>disconnect\<close> resolves.
\<close>

lemma disconnect_graceful:
  "let (st1, c1) = disconnect Returns Returns connected_client;
       c2 = socketClose 0 None c1;
       (st2, c3) = disconnect_afterPublisher 1 Returns c2
   in st1 = AwaitPublisherClosed 1 \<and> st2 = Disconnected \<and>
      getPublisherState c3 = DISCONNECTED \<and> getSubscriberState c3 = DISCONNECTED \<and>
      timers c3 = [ForceClosePublisher 1]"
  by (simp add: connected_client_def run_defs Let_def getPublisherState_def
      getSubscriberState_def)

text \<open>
  C3. After \<open>disconnect()\<close> resolves, both roles report \<open>DISCONNECTED\<close> (and no
  reconnection follows, whatever the transport fires later).

  The run below ends otherwise. The server has closed the publisher's connection, so
  \<open>pubSocket\<close> still holds the closed socket. \<open>disconnect\<close> moves the publisher to
  \<open>DISCONNECTING\<close> and calls \<open>close\<close>, which does nothing on a closed socket; no close
  event follows; after one second the timer clears \<open>pubSocket\<close> and resolves the wait.
  Nothing on this path sets the state again: \<open>disconnect\<close> resolves with the publisher in
  \<open>DISCONNECTING\<close>.
\<close>

theorem disconnect_resolves_in_DISCONNECTING:
  "let (st1, c1) = disconnect Returns Returns dropped_client;
       c2 = timerFires (ForceClosePublisher 1) Returns c1;
       (st2, c3) = disconnect_afterPublisher 1 Returns c2
   in map readyState (sockets dropped_client) = [3] \<and>
      st1 = AwaitPublisherClosed 1 \<and> awaited c1 (Shared 1) = Pending \<and>
      st2 = Disconnected \<and> pubSocket c3 = None \<and>
      getPublisherState c3 = DISCONNECTING \<and> getSubscriberState c3 = DISCONNECTED"
  by (simp add: dropped_client_def connected_client_def run_defs Let_def getPublisherState_def
      getSubscriberState_def)

lemma step_quiet:
  "isDisconnecting c \<Longrightarrow> quiet c (step js c e)"
  unfolding quiet_def
  by (cases e)
     (auto simp: frame_defs Let_def connectingTransition_def length_filter_remove1
      simp del: reached.simps
      split: option.splits callOutcome.splits settled.splits connectionType.splits
        timer.splits property.splits if_splits)

lemma quiet_trans: "quiet c c' \<Longrightarrow> quiet c' c'' \<Longrightarrow> quiet c c''"
  by (auto simp: quiet_def)

lemma run_quiet: "isDisconnecting c \<Longrightarrow> quiet c (run js c es)"
proof (induction es arbitrary: c)
  case Nil
  then show ?case by (simp add: run_def quiet_def)
next
  case (Cons e es)
  have q: "quiet c (step js c e)"
    using Cons.prems by (rule step_quiet)
  then have "isDisconnecting (step js c e)"
    by (simp add: quiet_def)
  then have "quiet (step js c e) (run js (step js c e) es)"
    by (rule Cons.IH)
  with q show ?case
    by (simp add: run_Cons quiet_trans)
qed

lemma connectPublisher_shutting_down:
  "isDisconnecting c \<Longrightarrow> pubConnectPromise c = None \<Longrightarrow> \<not> isSocketConnected c (pubSocket c) \<Longrightarrow>
   connectPublisher ctor c = (RejectedNow ClientIsDisconnecting, c)"
  by (simp add: connectPublisher_def)

lemma connectSubscriber_shutting_down:
  "isDisconnecting c \<Longrightarrow> subConnectPromise c = None \<Longrightarrow> \<not> isSocketConnected c (subSocket c) \<Longrightarrow>
   connectSubscriber ctor c = (RejectedNow ClientIsDisconnecting, c)"
  by (simp add: connectSubscriber_def)

lemma disconnect_sets_flag: "isDisconnecting (snd (disconnect clPub clSub c))"
  by (simp add: disconnect_defs state_defs Let_def split: option.splits callOutcome.splits)

text \<open>
  C4. \<open>disconnect\<close> sets the shutdown flag. While the flag is set, a call of \<open>publish\<close> or
  \<open>subscribe\<close> that would start a new connection attempt (no attempt in flight, socket
  not open) is rejected at once with "Client is disconnecting" and changes nothing; and
  whatever happens afterwards, the flag stays set, no socket is constructed, no
  transition to \<open>CONNECTING\<close> or \<open>RECONNECTING\<close> is made, no reconnect timer is added
  and no retry counter grows.
\<close>

theorem shutdown_blocks_connecting:
  "isDisconnecting (snd (disconnect clPub clSub c0)) \<and>
   (isDisconnecting c \<longrightarrow>
      (pubConnectPromise c = None \<and> \<not> isSocketConnected c (pubSocket c) \<longrightarrow>
         publish ctor c = (RejectedNow ClientIsDisconnecting, c)) \<and>
      (subConnectPromise c = None \<and> \<not> isSocketConnected c (subSocket c) \<longrightarrow>
         subscribe ctor c = (RejectedNow ClientIsDisconnecting, c)) \<and>
      quiet c (run js c es))"
  using disconnect_sets_flag[of clPub clSub c0] connectPublisher_shutting_down[of c ctor]
    connectSubscriber_shutting_down[of c ctor] run_quiet[of c js es]
  by (simp add: publish_def subscribe_def)

lemma closing_client_facts:
  "isDisconnecting closing_client \<and> pubConnectPromise closing_client = None \<and>
   subConnectPromise closing_client = None \<and>
   \<not> isSocketConnected closing_client (pubSocket closing_client) \<and>
   \<not> isSocketConnected closing_client (subSocket closing_client)"
  by (simp add: closing_client_def connected_client_def run_defs Let_def)

theorem shutdown_blocks_connecting_witness:
  "isDisconnecting closing_client \<and>
   (pubConnectPromise closing_client = None \<and>
    \<not> isSocketConnected closing_client (pubSocket closing_client)) \<and>
   publish Returns closing_client = (RejectedNow ClientIsDisconnecting, closing_client) \<and>
   (subConnectPromise closing_client = None \<and>
    \<not> isSocketConnected closing_client (subSocket closing_client)) \<and>
   subscribe Returns closing_client = (RejectedNow ClientIsDisconnecting, closing_client) \<and>
   quiet closing_client (run objectJSON closing_client closing_events)"
  using shutdown_blocks_connecting[of Returns Returns connected_client closing_client Returns
      objectJSON closing_events]
    closing_client_facts
  by simp

section \<open>Reconnection after an error\<close>

text \<open>
  C5. An error event after the connection has opened rejects nothing, and the close event
  that follows it starts the reconnection, since the role had been connected.

  The first half holds: the attempt stays fulfilled. The second does not: \<open>onerror\<close> sets
  the state to \<open>ERROR\<close>, so \<open>onclose\<close> finds \<open>wasConnected\<close> false and does not call
  \<open>attemptReconnectPublisher\<close>. After error and close of a connected publisher (with
  \<open>autoReconnect\<close> on) no timer is pending and the role stays \<open>DISCONNECTED\<close>; after the
  close alone the reconnect is scheduled.
\<close>

theorem error_after_open_prevents_reconnect:
  "let c1 = run objectJSON connected_client [SocketError 0 None, SocketClose 0 None]
   in pubState connected_client = CONNECTED \<and> autoReconnect connected_client \<and>
      awaited c1 (Shared 0) = Fulfilled \<and>
      timers c1 = [] \<and> pubState c1 = DISCONNECTED \<and> pubReconnectAttempts c1 = 0 \<and>
      transitions c1 =
        transitions connected_client @ [(ERROR, publisher), (DISCONNECTED, publisher)] \<and>
      timers dropped_client = [ReconnectPublisher] \<and> pubState dropped_client = RECONNECTING"
  by (simp add: dropped_client_def connected_client_def run_defs Let_def)

section \<open>Registration and dispatch\<close>

lemma not_inherited: "t \<notin> set objectPrototypeMembers \<Longrightarrow> spread (lookup m t) = Some (case m t of None \<Rightarrow> [] | Some cbs \<Rightarrow> cbs)"
  by (simp add: lookup_def spread_def split: option.splits)

lemma TOPIC_ALL_not_inherited: "TOPIC_ALL \<notin> set objectPrototypeMembers"
  by (simp add: TOPIC_ALL_def objectPrototypeMembers_def)

text \<open>
  A subscription appends: under every topic of the call the callback goes behind the
  callbacks registered before, once for each time the topic is listed.
\<close>

lemma addCallback_appends:
  "set ts \<inter> set objectPrototypeMembers = {} \<Longrightarrow>
   fst (addCallback cb ts m) = None \<and>
   (case snd (addCallback cb ts m) t of None \<Rightarrow> [] | Some cbs \<Rightarrow> cbs) =
     (case m t of None \<Rightarrow> [] | Some cbs \<Rightarrow> cbs) @ replicate (count_list ts t) cb"
proof (induction ts arbitrary: m)
  case Nil
  then show ?case by simp
next
  case (Cons u ts)
  then have u: "u \<notin> set objectPrototypeMembers"
    and ts: "set ts \<inter> set objectPrototypeMembers = {}"
    by auto
  have ih: "fst (addCallback cb ts m') = None"
    "(case snd (addCallback cb ts m') t of None \<Rightarrow> [] | Some cbs \<Rightarrow> cbs) =
       (case m' t of None \<Rightarrow> [] | Some cbs \<Rightarrow> cbs) @ replicate (count_list ts t) cb"
    for m'
    using Cons.IH[OF ts, of m'] by simp_all
  show ?case
  proof (cases "m u")
    case None
    then have eq: "addCallback cb (u # ts) m = addCallback cb ts (m(u \<mapsto> [cb]))"
      using u by (simp add: lookup_def)
    show ?thesis
      unfolding eq using None
      by (cases "u = t") (simp_all add: ih replicate_append_same)
  next
    case (Some cbs)
    then have eq: "addCallback cb (u # ts) m = addCallback cb ts (m(u \<mapsto> cbs @ [cb]))"
      by (simp add: lookup_def)
    show ?thesis
      unfolding eq using Some
      by (cases "u = t") (simp_all add: ih replicate_append_same)
  qed
qed

lemma subscribe_registers_in_order:
  assumes "awaited c r = Fulfilled"
    and "set (topicArray ts) \<inter> set objectPrototypeMembers = {}"
  shows "fst (subscribe_resume r cb ts c) = Fulfilled \<and>
         registered (snd (subscribe_resume r cb ts c)) t =
           registered c t @ replicate (count_list (topicArray ts) t) cb"
  using assms addCallback_appends[OF assms(2), of cb "listeners c" t]
  by (simp add: subscribe_resume_def registered_def)

lemma invocations_append: "invocations (xs @ ys) = invocations xs @ invocations ys"
  by (induction xs rule: invocations.induct) simp_all

text \<open>
  When no callback of the dispatch throws a value without string conversion, \<open>forEach\<close>
  calls them all, in the order of the list.
\<close>

lemma forEach_printable:
  "printable call t pl cbs \<Longrightarrow>
   snd (forEach_callback call t pl cbs) = None \<and>
   invocations (fst (forEach_callback call t pl cbs)) = map (\<lambda>cb. (cb, t, pl)) cbs"
  by (induction cbs)
     (auto simp: printable_def split: callbackOutcome.splits thrown.splits)

lemma dispatch_in_registration_order:
  assumes "parse_message js data = Some (SerializedMessage t s)"
    and "parse_payload js s = Some pl"
    and "t \<notin> set objectPrototypeMembers"
    and "printable call t pl (registered c t @ registered c TOPIC_ALL)"
  shows "invocations (onmessage js call c data) =
           map (\<lambda>cb. (cb, t, pl)) (registered c t @ registered c TOPIC_ALL)"
proof -
  let ?ls = "registered c t @ registered c TOPIC_ALL"
  have f: "snd (forEach_callback call t pl ?ls) = None"
    "invocations (fst (forEach_callback call t pl ?ls)) = map (\<lambda>cb. (cb, t, pl)) ?ls"
    using forEach_printable[OF assms(4)] by simp_all
  have "onmessage js call c data =
          (if length ?ls > 0 then fst (forEach_callback call t pl ?ls) else [])"
    using assms(1,2) f(1) not_inherited[OF assms(3), of "listeners c"]
      not_inherited[OF TOPIC_ALL_not_inherited, of "listeners c"]
    by (auto simp: onmessage_def registered_def Let_def split: prod.splits)
  then show ?thesis
    using f(2) by (cases "?ls = []") simp_all
qed

text \<open>
  The frame \<open>publish\<close> sends, dispatched: if \<open>JSON.parse\<close> inverts \<open>JSON.stringify\<close> on
  the payload and on the envelope, the socket is open, the topic is not the name of an
  inherited member and no callback throws a value without string conversion, every
  callback registered for the topic or the wildcard is called with the topic and the
  payload.
\<close>

lemma publish_dispatch_roundtrip:
  assumes "stringify_payload js pl = Some s"
    and "parse_payload js s = Some pl"
    and "parse_message js (stringify_message js (SerializedMessage t s)) =
           Some (SerializedMessage t s)"
    and "awaited c r = Fulfilled"
    and "pubSocket c = Some k" and "isSocketConnected c (Some k)"
    and "t \<notin> set objectPrototypeMembers"
    and "printable call t pl (registered c' t @ registered c' TOPIC_ALL)"
  shows "publish_resume js r t pl c =
           (Fulfilled, c\<lparr>sent := sent c @ [(k, stringify_message js (SerializedMessage t s))]\<rparr>) \<and>
         invocations (onmessage js call c' (stringify_message js (SerializedMessage t s))) =
           map (\<lambda>cb. (cb, t, pl)) (registered c' t @ registered c' TOPIC_ALL)"
  using assms(1,4,5,6) dispatch_in_registration_order[OF assms(3) assms(2) assms(7) assms(8)]
  by (simp add: publish_resume_def publish_frame_def socket_send_def isSocketConnected_def)

subsection \<open>Runs of the dispatch\<close>

lemma sample_frame_parses:
  "parse_message objectJSON sample_frame =
     Some (SerializedMessage ''updates'' (stringifyObject sample_payload)) \<and>
   parse_message objectJSON constructor_frame =
     Some (SerializedMessage ''constructor'' (stringifyObject sample_payload)) \<and>
   parse_payload objectJSON (stringifyObject sample_payload) = Some sample_payload \<and>
   stringify_payload objectJSON sample_payload = Some (stringifyObject sample_payload)"
  by (simp add: sample_frame_def constructor_frame_def sample_payload_def objectJSON_defs)

lemma subscribed_client_listeners:
  "listeners subscribed_client ''updates'' = Some [7, 8] \<and>
   listeners subscribed_client ''news'' = Some [8] \<and>
   listeners subscribed_client TOPIC_ALL = Some [9] \<and>
   listeners subscribed_client ''constructor'' = None"
  by (simp add: subscribed_client_def run_defs registry_defs Let_def)

lemma dispatch_allReturn:
  "onmessage objectJSON allReturn subscribed_client sample_frame =
     [Invoked 7 ''updates'' sample_payload, Invoked 8 ''updates'' sample_payload,
      Invoked 9 ''updates'' sample_payload]"
  using sample_frame_parses subscribed_client_listeners
  by (simp add: onmessage_def registry_defs allReturn_def)

text \<open>
  C6. When an envelope for a specific topic is dispatched, every callback registered for
  the topic and every callback registered for the wildcard is called once, those of the
  topic first, each group in registration order.

  The registrations do come in this order (callbacks 7 and 8 of the topic, then 9 of the
  wildcard, each called once when all return). But the dispatch stops at a callback that
  throws a value without string conversion, since the catch around the call throws when
  it builds its log text: callback 8 throws such a value, and the wildcard callback 9,
  registered and due, is never called. This is the defect of C7.
\<close>

theorem dispatch_cut_short_before_wildcard:
  "registered subscribed_client ''updates'' = [7, 8] \<and>
   registered subscribed_client TOPIC_ALL = [9] \<and>
   invocations (onmessage objectJSON allReturn subscribed_client sample_frame) =
     [(7, ''updates'', sample_payload), (8, ''updates'', sample_payload),
      (9, ''updates'', sample_payload)] \<and>
   invocations (onmessage objectJSON (throwsAt 8 Unprintable) subscribed_client sample_frame) =
     [(7, ''updates'', sample_payload), (8, ''updates'', sample_payload)]"
  using sample_frame_parses subscribed_client_listeners
  by (simp add: onmessage_def registry_defs allReturn_def throwsAt_def)

text \<open>
  C7. A callback that throws is caught, and the callbacks after it in the same dispatch
  are still called.

  This holds when the thrown value converts to a string: callback 7 throws \<open>boom\<close>, the
  catch logs it, 8 and 9 are called. It fails when the value does not (a Symbol, an
  object without prototype): the catch evaluates \<open>`Error in message callback:
  ${error}`\<close>, the conversion throws inside the catch, \<open>forEach\<close> is left, and the outer
  catch of the handler logs the TypeError. Callbacks 8 and 9 are not called.
\<close>

theorem unprintable_throw_leaves_forEach:
  "onmessage objectJSON (throwsAt 7 (Printable ''boom'')) subscribed_client sample_frame =
     [Invoked 7 ''updates'' sample_payload, LogDebug ''Error in message callback: boom'',
      Invoked 8 ''updates'' sample_payload, Invoked 9 ''updates'' sample_payload] \<and>
   onmessage objectJSON (throwsAt 7 Unprintable) subscribed_client sample_frame =
     [Invoked 7 ''updates'' sample_payload,
      LogDebug ''Error processing WebSocket message: TypeError'']"
  using sample_frame_parses subscribed_client_listeners
  by (simp add: onmessage_def registry_defs throwsAt_def)

text \<open>
  C8. Round trip: for every topic and every payload that JSON can carry, the frame that
  \<open>publish\<close> sends, dispatched by a subscriber, delivers that payload under that topic.

  For the topic \<open>constructor\<close> it does not. \<open>publish\<close> sends a frame that parses back to
  the topic and the payload; in the dispatch \<open>this.listeners["constructor"]\<close> is the
  function inherited from \<open>Object.prototype\<close>, spreading it throws, and the handler logs
  the error: nothing is delivered, not even to the wildcard callback 9. The same frame
  under the topic \<open>updates\<close> reaches callbacks 7, 8 and 9 with the payload.
\<close>

theorem inherited_topic_not_delivered:
  "publish_resume objectJSON (Shared 0) ''constructor'' sample_payload connected_client =
     (Fulfilled, connected_client\<lparr>sent := [(0, constructor_frame)]\<rparr>) \<and>
   parse_message objectJSON constructor_frame =
     Some (SerializedMessage ''constructor'' (stringifyObject sample_payload)) \<and>
   parse_payload objectJSON (stringifyObject sample_payload) = Some sample_payload \<and>
   registered subscribed_client TOPIC_ALL = [9] \<and>
   onmessage objectJSON allReturn subscribed_client constructor_frame =
     [LogDebug ''Error processing WebSocket message: TypeError''] \<and>
   invocations (onmessage objectJSON allReturn subscribed_client sample_frame) =
     [(7, ''updates'', sample_payload), (8, ''updates'', sample_payload),
      (9, ''updates'', sample_payload)]"
proof -
  have sock: "isSocketConnected connected_client (Some 0)"
    by (simp add: connected_client_def run_defs Let_def)
  have pub: "publish_resume objectJSON (Shared 0) ''constructor'' sample_payload
               connected_client =
             (Fulfilled, connected_client\<lparr>sent := [(0, constructor_frame)]\<rparr>)"
    using connected_client_facts sock sample_frame_parses
    by (simp add: publish_resume_def publish_frame_def socket_send_def isSocketConnected_def
        constructor_frame_def)
  have drop: "onmessage objectJSON allReturn subscribed_client constructor_frame =
                [LogDebug ''Error processing WebSocket message: TypeError'']"
    using sample_frame_parses subscribed_client_listeners
    by (simp add: onmessage_def lookup_def spread_def objectPrototypeMembers_def)
  show ?thesis
    using pub drop sample_frame_parses subscribed_client_listeners dispatch_allReturn
    by (simp add: registered_def)
qed

section \<open>The shutdown state\<close>

text \<open>
  C9. The enum \<open>ConnectionState\<close> has the six members \<open>DISCONNECTED\<close>, \<open>CONNECTING\<close>,
  \<open>CONNECTED\<close>, \<open>RECONNECTING\<close>, \<open>DISCONNECTING\<close>, \<open>ERROR\<close>, and a role with a live socket
  moves to \<open>DISCONNECTING\<close> during shutdown, as the getters and the state change
  listeners report.

  \<open>disconnect\<close> does pass \<open>ConnectionState.DISCONNECTING\<close> on, to the field and to every
  listener. The enum declared in types.ts has five members, and the value of
  \<open>DISCONNECTING\<close> is not among them.
\<close>

theorem DISCONNECTING_not_declared:
  "let c1 = onStateChange 7 connected_client;
       c2 = snd (disconnect Returns Returns c1)
   in getPublisherState c2 = DISCONNECTING \<and>
      notifications c2 = [(7, DISCONNECTING, publisher)] \<and>
      memberValue DISCONNECTING \<notin> set ConnectionState_declared \<and>
      length ConnectionState_declared = 5"
  by (simp add: connected_client_def run_defs Let_def getPublisherState_def
      ConnectionState_declared_def)

section \<open>Subscribe\<close>

text \<open>
  C10. \<open>subscribe\<close> leaves the registry alone up to its await. If the awaited connection
  attempt is rejected, \<open>subscribe\<close> is rejected with the same error and the client,
  registry included, is what it was; the registry changes only once the attempt is
  fulfilled.
\<close>

theorem subscribe_atomic:
  "listeners (snd (subscribe ctor c)) = listeners c \<and>
   (awaited c' r = Rejected e \<longrightarrow> subscribe_resume r cb ts c' = (Rejected e, c')) \<and>
   (awaited c' r \<noteq> Fulfilled \<longrightarrow> listeners (snd (subscribe_resume r cb ts c')) = listeners c')"
  by (auto simp: subscribe_def connectSubscriber_def subscribe_resume_def state_defs Let_def
      split: option.splits callOutcome.splits settled.splits)

lemma denied_client_facts:
  "awaited denied_client (Shared 0) = Rejected (WebSocketError ''Denied'') \<and>
   fst (subscribe Returns (McastClient_new None None)) = Shared 0"
  by (simp add: denied_client_def run_defs Let_def)

theorem subscribe_atomic_witness:
  "awaited denied_client (Shared 0) = Rejected (WebSocketError ''Denied'') \<and>
   awaited denied_client (Shared 0) \<noteq> Fulfilled \<and>
   subscribe_resume (Shared 0) 7 (Topic ''updates'') denied_client =
     (Rejected (WebSocketError ''Denied''), denied_client) \<and>
   listeners (snd (subscribe_resume (Shared 0) 7 (Topic ''updates'') denied_client)) =
     listeners denied_client"
  using subscribe_atomic[of Returns denied_client denied_client "Shared 0"
      "WebSocketError ''Denied''" 7 "Topic ''updates''"]
    denied_client_facts
  by simp


end
